theory Spec2Isabelle
  imports Complex_Main "HOL-Library.Word"
begin

section \<open>Numbers of the source language\<close>

text \<open>
  The player is TypeScript: every number is an IEEE double. The model keeps the special
  values a division by zero produces (the infinities and NaN) and idealises the finite
  values to exact reals: rounding error and the sign of zero are not modelled.
  Sample buffers are \<^verbatim>\<open>Uint8Array\<close>s, so a sample is an \<^typ>\<open>8 word\<close>.
\<close>

datatype jsnum = Fin real | PosInf | NegInf | NaN

type_synonym byte = "8 word"

text \<open>\<^verbatim>\<open>a / b\<close>\<close>

fun js_div :: "jsnum \<Rightarrow> jsnum \<Rightarrow> jsnum" where
  "js_div NaN _ = NaN"
| "js_div _ NaN = NaN"
| "js_div (Fin a) (Fin b) =
     (if b \<noteq> 0 then Fin (a / b)
      else if a = 0 then NaN
      else if 0 < a then PosInf else NegInf)"
| "js_div (Fin a) _ = Fin 0"
| "js_div PosInf (Fin b) = (if 0 \<le> b then PosInf else NegInf)"
| "js_div NegInf (Fin b) = (if 0 \<le> b then NegInf else PosInf)"
| "js_div _ _ = NaN"

text \<open>\<^verbatim>\<open>a * b\<close>\<close>

fun js_mul :: "jsnum \<Rightarrow> jsnum \<Rightarrow> jsnum" where
  "js_mul NaN _ = NaN"
| "js_mul _ NaN = NaN"
| "js_mul (Fin a) (Fin b) = Fin (a * b)"
| "js_mul (Fin a) PosInf = (if a = 0 then NaN else if 0 < a then PosInf else NegInf)"
| "js_mul (Fin a) NegInf = (if a = 0 then NaN else if 0 < a then NegInf else PosInf)"
| "js_mul PosInf (Fin b) = (if b = 0 then NaN else if 0 < b then PosInf else NegInf)"
| "js_mul NegInf (Fin b) = (if b = 0 then NaN else if 0 < b then NegInf else PosInf)"
| "js_mul PosInf PosInf = PosInf"
| "js_mul NegInf NegInf = PosInf"
| "js_mul _ _ = NegInf"

text \<open>\<^verbatim>\<open>Math.sqrt\<close>\<close>

fun js_sqrt :: "jsnum \<Rightarrow> jsnum" where
  "js_sqrt (Fin a) = (if a < 0 then NaN else Fin (sqrt a))"
| "js_sqrt PosInf = PosInf"
| "js_sqrt _ = NaN"

text \<open>\<^verbatim>\<open>Math.max\<close> and \<^verbatim>\<open>Math.min\<close>: NaN as soon as one argument is NaN.\<close>

fun js_max :: "jsnum \<Rightarrow> jsnum \<Rightarrow> jsnum" where
  "js_max NaN _ = NaN"
| "js_max _ NaN = NaN"
| "js_max (Fin a) (Fin b) = Fin (max a b)"
| "js_max PosInf _ = PosInf"
| "js_max _ PosInf = PosInf"
| "js_max NegInf b = b"
| "js_max a NegInf = a"

fun js_min :: "jsnum \<Rightarrow> jsnum \<Rightarrow> jsnum" where
  "js_min NaN _ = NaN"
| "js_min _ NaN = NaN"
| "js_min (Fin a) (Fin b) = Fin (min a b)"
| "js_min NegInf _ = NegInf"
| "js_min _ NegInf = NegInf"
| "js_min PosInf b = b"
| "js_min a PosInf = a"

text \<open>A result that is a number of the closed interval \<open>[0, 100]\<close>.\<close>

fun in_0_100 :: "jsnum \<Rightarrow> bool" where
  "in_0_100 (Fin r) = (0 \<le> r \<and> r \<le> 100)"
| "in_0_100 _ = False"

section \<open>Signal processors (music-player.tsx, audioProcessors)\<close>

text \<open>
  \<^verbatim>\<open>(samples[i] - 128) / 128\<close> for an index inside the buffer.
\<close>

definition normalized :: "byte \<Rightarrow> real" where
  "normalized b = (real (unat b) - 128) / 128"

text \<open>
  The loop \<^verbatim>\<open>for (let i = 0; i < length; i += sampleRate)\<close> of \<^verbatim>\<open>calculateRMS\<close>.
  With \<^verbatim>\<open>sampleRate = 0\<close> and a non-empty buffer the index never advances and the
  source loop does not return: that is the result \<open>None\<close>.
\<close>

function rms_loop :: "byte list \<Rightarrow> nat \<Rightarrow> nat \<Rightarrow> real \<Rightarrow> real option" where
  "rms_loop samples sampleRate i acc =
     (if i < length samples then
        (if sampleRate = 0 then None
         else rms_loop samples sampleRate (i + sampleRate)
                (acc + normalized (samples ! i) * normalized (samples ! i)))
      else Some acc)"
  by pat_completeness auto
termination
  by (relation "measure (\<lambda>(samples, sampleRate, i, acc). length samples - i)") auto

declare rms_loop.simps [simp del]

definition calculateRMS :: "byte list \<Rightarrow> nat \<Rightarrow> jsnum option" where
  "calculateRMS samples sampleRate =
     (case rms_loop samples sampleRate 0 0 of
        None \<Rightarrow> None
      | Some acc \<Rightarrow>
          (let rms = js_sqrt (js_div (Fin acc)
                        (js_div (Fin (real (length samples))) (Fin (real sampleRate))))
           in Some (js_min (Fin 100) (js_max (Fin 0) (js_mul rms (Fin 150))))))"

text \<open>The loop of \<^verbatim>\<open>calculatePeak\<close>, with the running maximum \<open>peak\<close>.\<close>

function peak_loop :: "byte list \<Rightarrow> nat \<Rightarrow> nat \<Rightarrow> real \<Rightarrow> real option" where
  "peak_loop samples sampleRate i peak =
     (if i < length samples then
        (if sampleRate = 0 then None
         else peak_loop samples sampleRate (i + sampleRate)
                (if \<bar>normalized (samples ! i)\<bar> > peak then \<bar>normalized (samples ! i)\<bar> else peak))
      else Some peak)"
  by pat_completeness auto
termination
  by (relation "measure (\<lambda>(samples, sampleRate, i, peak). length samples - i)") auto

declare peak_loop.simps [simp del]

definition calculatePeak :: "byte list \<Rightarrow> nat \<Rightarrow> jsnum option" where
  "calculatePeak samples sampleRate =
     (case peak_loop samples sampleRate 0 0 of
        None \<Rightarrow> None
      | Some peak \<Rightarrow> Some (js_min (Fin 100) (js_mul (Fin peak) (Fin 100))))"

text \<open>\<^verbatim>\<open>calculateLUFS\<close>, called on finite levels only.\<close>

definition calculateLUFS :: "real \<Rightarrow> real \<Rightarrow> real" where
  "calculateLUFS leftRMS rightRMS =
     (let avgRMS = (leftRMS + rightRMS) / 2
      in max (-60) (min 0 (-50 + (avgRMS * 0.3))))"

section \<open>Quality tiers\<close>

datatype quality = Ultra | High | Medium | Low

text \<open>\<^verbatim>\<open>getWaveformBars\<close> (music-player.tsx).\<close>

fun getWaveformBars :: "quality \<Rightarrow> nat" where
  "getWaveformBars Ultra = 48"
| "getWaveformBars High = 32"
| "getWaveformBars Medium = 24"
| "getWaveformBars Low = 12"

text \<open>The tables \<^verbatim>\<open>fftSizes\<close> and \<^verbatim>\<open>bufferSizes\<close> of \<^verbatim>\<open>updateQualitySettings\<close>.\<close>

fun fftSizes :: "quality \<Rightarrow> nat" where
  "fftSizes Ultra = 512"
| "fftSizes High = 256"
| "fftSizes Medium = 128"
| "fftSizes Low = 64"

fun bufferSizes :: "quality \<Rightarrow> nat" where
  "bufferSizes Ultra = 256"
| "bufferSizes High = 128"
| "bufferSizes Medium = 64"
| "bufferSizes Low = 32"

text \<open>
  The audio provider's state that a tier change touches: the two sample buffers and
  \<^verbatim>\<open>analyserRef.current\<close>, which is null until the audio context has been initialised.
\<close>

record analyserNode =
  fftSize :: nat

record audioState =
  audioData :: "byte list"
  frequencyData :: "byte list"
  analyserRef :: "analyserNode option"

definition updateQualitySettings :: "quality \<Rightarrow> audioState \<Rightarrow> audioState" where
  "updateQualitySettings q a =
     (let fftSize' = fftSizes q;
          bufferSize = bufferSizes q
      in a\<lparr>audioData := replicate bufferSize 0,
           frequencyData := replicate bufferSize 0,
           analyserRef := (case analyserRef a of
                             None \<Rightarrow> None
                           | Some n \<Rightarrow> Some (n\<lparr>fftSize := fftSize'\<rparr>))\<rparr>)"

text \<open>
  The player's state that depends on the tier. The effect with the dependency
  \<^verbatim>\<open>qualityLevel\<close> runs when \<^verbatim>\<open>setQualityLevel\<close> stores a tier different from the
  current one.
\<close>

record playerState =
  qualityLevel :: quality
  waveformBars :: "real list"
  audio :: audioState

definition qualityEffect :: "playerState \<Rightarrow> playerState" where
  "qualityEffect st =
     (let barCount = getWaveformBars (qualityLevel st)
      in st\<lparr>audio := updateQualitySettings (qualityLevel st) (audio st),
            waveformBars := replicate barCount 15\<rparr>)"

definition setQualityLevel :: "quality \<Rightarrow> playerState \<Rightarrow> playerState" where
  "setQualityLevel q st =
     (if q = qualityLevel st then st else qualityEffect (st\<lparr>qualityLevel := q\<rparr>))"

section \<open>Waveform bars (updateVisuals, the throttled waveform block)\<close>

text \<open>
  \<^verbatim>\<open>frequencyData[freqIndex] || 0\<close>: a read past the end is \<^verbatim>\<open>undefined\<close>, replaced by 0.
  The result is \<open>None\<close> when the buffer is empty and the bars are left as they are.
\<close>

definition byteOrZero :: "byte list \<Rightarrow> nat \<Rightarrow> real" where
  "byteOrZero xs i = (if i < length xs then real (unat (xs ! i)) else 0)"

definition updateWaveform :: "quality \<Rightarrow> byte list \<Rightarrow> real list option" where
  "updateWaveform q fd =
     (if length fd > 0 then
        (let barCount = getWaveformBars q;
             step = length fd div barCount
         in Some (map (\<lambda>i. let freqIndex = i * step;
                                 frequency = byteOrZero fd freqIndex
                             in min 100 (max 5 ((frequency / 255) * 80)))
                      [0..<barCount]))
      else None)"

section \<open>Meter ballistics (updateVisuals, the throttled meter block)\<close>

record meterData =
  vuLeft :: real
  vuRight :: real
  ppmLeft :: real
  ppmRight :: real
  vuPeakLeft :: real
  vuPeakRight :: real
  ppmPeakLeft :: real
  ppmPeakRight :: real
  loudness :: real
  correlation :: real
  phasePoints :: "(real \<times> real) list"

definition initialMeterData :: meterData where
  "initialMeterData =
     \<lparr>vuLeft = 0, vuRight = 0, ppmLeft = 0, ppmRight = 0,
      vuPeakLeft = 0, vuPeakRight = 0, ppmPeakLeft = 0, ppmPeakRight = 0,
      loudness = -23, correlation = 0, phasePoints = []\<rparr>"

text \<open>
  The state update \<^verbatim>\<open>setMeterData(prev => ...)\<close> of one meter tick. Its arguments are
  the values the closure captures: the instantaneous RMS and peak of each channel, the
  averaged sample product \<open>corr\<close> and the eight phase-scope points \<open>pts\<close>, all finite
  on the analyser's buffers.
\<close>

definition updateMeterData ::
  "real \<Rightarrow> real \<Rightarrow> real \<Rightarrow> real \<Rightarrow> real \<Rightarrow> (real \<times> real) list \<Rightarrow> meterData \<Rightarrow> meterData" where
  "updateMeterData leftRMS rightRMS leftPeak rightPeak corr pts prev =
     \<lparr>vuLeft = (if leftRMS > vuLeft prev then vuLeft prev * 0.7 + leftRMS * 0.3
                else vuLeft prev * 0.9),
      vuRight = (if rightRMS > vuRight prev then vuRight prev * 0.7 + rightRMS * 0.3
                 else vuRight prev * 0.9),
      ppmLeft = (if leftPeak > ppmLeft prev then ppmLeft prev * 0.8 + leftPeak * 0.2
                 else ppmLeft prev * 0.95),
      ppmRight = (if rightPeak > ppmRight prev then ppmRight prev * 0.8 + rightPeak * 0.2
                  else ppmRight prev * 0.95),
      vuPeakLeft = max leftRMS (vuPeakLeft prev * 0.98),
      vuPeakRight = max rightRMS (vuPeakRight prev * 0.98),
      ppmPeakLeft = max leftPeak (ppmPeakLeft prev * 0.99),
      ppmPeakRight = max rightPeak (ppmPeakRight prev * 0.99),
      loudness = loudness prev * 0.95 + calculateLUFS leftRMS rightRMS * 0.05,
      correlation = correlation prev * 0.9 + corr * 0.1,
      phasePoints = pts\<rparr>"

section \<open>Decay after playback stops (the timer decayInterval)\<close>

definition allLow :: "meterData \<Rightarrow> bool" where
  "allLow prev \<longleftrightarrow> vuLeft prev < 1 \<and> vuRight prev < 1 \<and> ppmLeft prev < 1 \<and> ppmRight prev < 1"

text \<open>
  One firing of the timer: the new meter state, and whether the timer is still running
  afterwards (\<open>False\<close> once \<^verbatim>\<open>clearInterval(decayInterval)\<close> has been called).
\<close>

definition decayTick :: "meterData \<Rightarrow> meterData \<times> bool" where
  "decayTick prev =
     (if allLow prev then (prev, False)
      else (prev\<lparr>vuLeft := vuLeft prev * 0.9,
                 vuRight := vuRight prev * 0.9,
                 ppmLeft := ppmLeft prev * 0.95,
                 ppmRight := ppmRight prev * 0.95,
                 vuPeakLeft := vuPeakLeft prev * 0.95,
                 vuPeakRight := vuPeakRight prev * 0.95,
                 ppmPeakLeft := ppmPeakLeft prev * 0.98,
                 ppmPeakRight := ppmPeakRight prev * 0.98,
                 correlation := correlation prev * 0.98\<rparr>, True))"


section \<open>Performance monitor\<close>

text \<open>
  The fields of \<^verbatim>\<open>performanceRef.current\<close> that the monitor reads and writes. The
  frame counting of the render loop (\<^verbatim>\<open>lastUpdate\<close>, \<^verbatim>\<open>frameCount\<close>,
  \<^verbatim>\<open>skipFrames\<close>) is outside the monitor: a check receives the measured \<open>fps\<close>.
  Times are \<^verbatim>\<open>Date.now()\<close> milliseconds.
\<close>

record perf =
  fps :: real
  avgFps :: real
  fpsHistory :: "real list"
  lowFpsCount :: int
  criticalFpsCount :: int
  lastWarningTime :: int
  memoryUsage :: real
  cpuUsage :: real

definition initialPerf :: perf where
  "initialPerf =
     \<lparr>fps = 0, avgFps = 0, fpsHistory = [], lowFpsCount = 0, criticalFpsCount = 0,
      lastWarningTime = 0, memoryUsage = 0, cpuUsage = 0\<rparr>"

fun qualityMultiplier :: "quality \<Rightarrow> real" where
  "qualityMultiplier Ultra = 4"
| "qualityMultiplier High = 2.5"
| "qualityMultiplier Medium = 1.5"
| "qualityMultiplier Low = 1"

fun targetFps :: "quality \<Rightarrow> real" where
  "targetFps Ultra = 60"
| "targetFps High = 45"
| "targetFps Medium = 30"
| "targetFps Low = 15"

definition updatePerformanceMetrics :: "quality \<Rightarrow> bool \<Rightarrow> perf \<Rightarrow> perf" where
  "updatePerformanceMetrics q isPlaying p =
     (let pushed = fpsHistory p @ [fps p];
          history = (if length pushed > 10 then tl pushed else pushed);
          avg = foldl (+) 0 history / real (length history);
          baseMemory = 20;
          activityMultiplier = (if isPlaying then 1.5 else 1);
          fpsRatio = min 1 (avg / targetFps q)
      in p\<lparr>fpsHistory := history,
            avgFps := avg,
            memoryUsage := baseMemory * qualityMultiplier q * activityMultiplier,
            cpuUsage := max 10 (min 95 ((1 - fpsRatio) * 100 + (if isPlaying then 20 else 5))),
            lowFpsCount := (if fps p < 45 then lowFpsCount p + 1
                            else max 0 (lowFpsCount p - 1)),
            criticalFpsCount := (if fps p < 25 then criticalFpsCount p + 1
                                 else max 0 (criticalFpsCount p - 1))\<rparr>)"

datatype warningType = fps_low | fps_critical | memory_high | cpu_high

datatype severityLevel = Warning | Critical

text \<open>
  A \<^verbatim>\<open>PerformanceWarning\<close> without its display strings (\<^verbatim>\<open>id\<close>, \<^verbatim>\<open>message\<close>,
  \<^verbatim>\<open>suggestion\<close>).
\<close>

record performanceWarning =
  wtype :: warningType
  suggestedQuality :: "quality option"
  timestamp :: int
  severity :: severityLevel





text \<open>
  The scheduled downgrade when its timeout fires at the time \<open>t\<close>: the new tier and the
  informational warning that confirms it.
\<close>

definition autoAdjust :: "quality \<Rightarrow> int \<Rightarrow> quality \<times> performanceWarning" where
  "autoAdjust s t =
     (s, \<lparr>wtype = fps_low, suggestedQuality = None, timestamp = t, severity = Warning\<rparr>)"







section \<open>Oscilloscope zoom and pan\<close>

record oscilloscope =
  zoomLevel :: real
  panOffset :: real
  amplitudeZoom :: real
  isDragging :: bool
  lastMouseX :: real

definition initialOscilloscope :: oscilloscope where
  "initialOscilloscope =
     \<lparr>zoomLevel = 1, panOffset = 0, amplitudeZoom = 8, isDragging = False, lastMouseX = 0\<rparr>"

text \<open>\<^verbatim>\<open>Array.prototype.indexOf\<close>: the first position of the value, \<open>-1\<close> when absent.\<close>

fun indexOf :: "real list \<Rightarrow> real \<Rightarrow> int" where
  "indexOf [] v = -1"
| "indexOf (x # xs) v =
     (if x = v then 0 else (let r = indexOf xs v in if r < 0 then -1 else r + 1))"

definition zoomLevels :: "real list" where
  "zoomLevels = [0.0005, 0.001, 0.01, 0.1, 0.25, 0.5, 0.75, 1, 2, 4, 8, 16]"

definition amplitudeLevels :: "real list" where
  "amplitudeLevels = [1, 2, 4, 8]"

definition zoomIn :: "oscilloscope \<Rightarrow> oscilloscope" where
  "zoomIn s =
     (let currentIndex = indexOf zoomLevels (zoomLevel s)
      in s\<lparr>zoomLevel := (if currentIndex < int (length zoomLevels) - 1
                           then zoomLevels ! nat (currentIndex + 1) else zoomLevel s)\<rparr>)"

definition zoomOut :: "oscilloscope \<Rightarrow> oscilloscope" where
  "zoomOut s =
     (let currentIndex = indexOf zoomLevels (zoomLevel s)
      in if currentIndex > 0 then
           (let nextLevel = zoomLevels ! nat (currentIndex - 1)
            in (if nextLevel \<le> 1 then s\<lparr>panOffset := 0\<rparr> else s)\<lparr>zoomLevel := nextLevel\<rparr>)
         else s)"

definition amplitudeZoomIn :: "oscilloscope \<Rightarrow> oscilloscope" where
  "amplitudeZoomIn s =
     (let currentIndex = indexOf amplitudeLevels (amplitudeZoom s)
      in s\<lparr>amplitudeZoom := (if currentIndex < int (length amplitudeLevels) - 1
                               then amplitudeLevels ! nat (currentIndex + 1)
                               else amplitudeZoom s)\<rparr>)"

definition amplitudeZoomOut :: "oscilloscope \<Rightarrow> oscilloscope" where
  "amplitudeZoomOut s =
     (let currentIndex = indexOf amplitudeLevels (amplitudeZoom s)
      in s\<lparr>amplitudeZoom := (if currentIndex > 0
                               then amplitudeLevels ! nat (currentIndex - 1)
                               else amplitudeZoom s)\<rparr>)"

definition resetZoom :: "oscilloscope \<Rightarrow> oscilloscope" where
  "resetZoom s = s\<lparr>zoomLevel := 1, amplitudeZoom := 1, panOffset := 0\<rparr>"

definition handleMouseDown :: "real \<Rightarrow> oscilloscope \<Rightarrow> oscilloscope" where
  "handleMouseDown clientX s =
     (if zoomLevel s > 1 then s\<lparr>isDragging := True, lastMouseX := clientX\<rparr> else s)"

definition handleMouseMove :: "real \<Rightarrow> oscilloscope \<Rightarrow> oscilloscope" where
  "handleMouseMove clientX s =
     (if isDragging s \<and> zoomLevel s > 1 then
        (let deltaX = clientX - lastMouseX s;
             sensitivity = 0.5;
             panDelta = (deltaX * sensitivity * zoomLevel s) / 2;
             newOffset = panOffset s - panDelta
         in s\<lparr>panOffset := max 0 (min 100 newOffset), lastMouseX := clientX\<rparr>)
      else s)"

definition handleMouseUp :: "oscilloscope \<Rightarrow> oscilloscope" where
  "handleMouseUp s = s\<lparr>isDragging := False\<rparr>"

text \<open>
  The listeners on \<^verbatim>\<open>document\<close>, registered by an effect while \<^verbatim>\<open>isDragging\<close> holds.
\<close>

definition handleGlobalMouseMove :: "real \<Rightarrow> oscilloscope \<Rightarrow> oscilloscope" where
  "handleGlobalMouseMove clientX s =
     (if isDragging s then
        (let deltaX = clientX - lastMouseX s;
             sensitivity = 0.5;
             panDelta = (deltaX * sensitivity * zoomLevel s) / 2;
             newOffset = panOffset s - panDelta
         in s\<lparr>panOffset := max 0 (min 100 newOffset), lastMouseX := clientX\<rparr>)
      else s)"

definition handleGlobalMouseUp :: "oscilloscope \<Rightarrow> oscilloscope" where
  "handleGlobalMouseUp s = (if isDragging s then s\<lparr>isDragging := False\<rparr> else s)"

definition handleWheel :: "bool \<Rightarrow> real \<Rightarrow> oscilloscope \<Rightarrow> oscilloscope" where
  "handleWheel shiftKey deltaY s =
     (if shiftKey then (if deltaY < 0 then amplitudeZoomIn s else amplitudeZoomOut s)
      else (if deltaY < 0 then zoomIn s else zoomOut s))"

datatype oscEvent =
    ClickZoomIn | ClickZoomOut | ClickReset
  | MouseDown real | MouseMove real | MouseUp
  | GlobalMouseMove real | GlobalMouseUp
  | Wheel bool real

fun oscStep :: "oscilloscope \<Rightarrow> oscEvent \<Rightarrow> oscilloscope" where
  "oscStep s ClickZoomIn = zoomIn s"
| "oscStep s ClickZoomOut = zoomOut s"
| "oscStep s ClickReset = resetZoom s"
| "oscStep s (MouseDown x) = handleMouseDown x s"
| "oscStep s (MouseMove x) = handleMouseMove x s"
| "oscStep s MouseUp = handleMouseUp s"
| "oscStep s (GlobalMouseMove x) = handleGlobalMouseMove x s"
| "oscStep s GlobalMouseUp = handleGlobalMouseUp s"
| "oscStep s (Wheel shiftKey deltaY) = handleWheel shiftKey deltaY s"

text \<open>The state after a sequence of user events, from the initial state.\<close>

definition oscRun :: "oscEvent list \<Rightarrow> oscilloscope" where
  "oscRun es = foldl oscStep initialOscilloscope es"

section \<open>Spectrum mapper (ascii-spectrum-analyzer.tsx)\<close>

definition VIZ_COLS :: nat where "VIZ_COLS = 140"
definition MIN_FREQ :: real where "MIN_FREQ = 20"
definition MAX_FREQ :: real where "MAX_FREQ = 22000"
definition SAMPLE_RATE :: real where "SAMPLE_RATE = 44100"

text \<open>The frequency \<^verbatim>\<open>freq\<close> that the loop of \<^verbatim>\<open>logIndexMap\<close> computes for the column \<open>i\<close>.\<close>

definition colFreq :: "nat \<Rightarrow> real" where
  "colFreq i =
     10 powr (log 10 MIN_FREQ + ((log 10 MAX_FREQ - log 10 MIN_FREQ) * real i) / (real VIZ_COLS - 1))"

text \<open>
  The body of the loop of \<^verbatim>\<open>logIndexMap\<close> for the column \<open>i\<close>, on a frequency buffer of
  \<open>len\<close> bins. \<^verbatim>\<open>Math.round\<close> is \<open>\<lfloor>x + 1/2\<rfloor>\<close>, as \<^const>\<open>round\<close> is.
\<close>

definition logIndex :: "nat \<Rightarrow> nat \<Rightarrow> nat" where
  "logIndex len i =
     (let availableBins = max 1 len;
          maxIndex = availableBins - 1;
          logMin = log 10 MIN_FREQ;
          logMax = log 10 MAX_FREQ;
          logRange = logMax - logMin;
          logFreq = logMin + (logRange * real i) / (real VIZ_COLS - 1);
          freq = 10 powr logFreq;
          index = round ((freq / (SAMPLE_RATE / 2)) * real availableBins)
      in nat (min (int maxIndex) (max 0 index)))"

definition logIndexMap :: "nat \<Rightarrow> nat list" where
  "logIndexMap len = map (logIndex len) [0..<VIZ_COLS]"

text \<open>The window \<^verbatim>\<open>[startIndex, endIndex)\<close> of the column \<open>i\<close> and the bins the inner loop visits.\<close>

definition columnWindow :: "nat \<Rightarrow> nat \<Rightarrow> nat \<times> nat" where
  "columnWindow len i =
     (let startIndex = logIndexMap len ! i;
          endIndex = (if i < VIZ_COLS - 1 then logIndexMap len ! (i + 1)
                      else min (startIndex + 1) len)
      in (startIndex, endIndex))"

definition columnBins :: "nat \<Rightarrow> nat \<Rightarrow> nat list" where
  "columnBins len i = (case columnWindow len i of (startIndex, endIndex) \<Rightarrow> [startIndex..<endIndex])"

text \<open>The new column values while playing, on a non-empty buffer.\<close>

definition spectrumUpdate :: "real \<Rightarrow> byte list \<Rightarrow> real list" where
  "spectrumUpdate intensity fd =
     map (\<lambda>i. let s = foldl (\<lambda>a j. a + byteOrZero fd j) 0 (columnBins (length fd) i);
                   binCount = max 1 (snd (columnWindow (length fd) i) - fst (columnWindow (length fd) i));
                   avg = s / real binCount
               in min 100 ((avg / 255) * 100 * (intensity / 50)))
         [0..<VIZ_COLS]"

section \<open>Example states\<close>

text \<open>A player on the tier \<open>High\<close> in mid-playback, with an analyser.\<close>

definition examplePlayer :: playerState where
  "examplePlayer =
     \<lparr>qualityLevel = High, waveformBars = replicate 32 40,
      audio = \<lparr>audioData = replicate 128 7, frequencyData = replicate 128 9,
               analyserRef = Some \<lparr>fftSize = 256\<rparr>\<rparr>\<rparr>"

text \<open>Meters after a loud passage: the levels have fallen, the peak-holds are still high.\<close>

definition exampleMeter :: meterData where
  "exampleMeter =
     \<lparr>vuLeft = 0, vuRight = 0, ppmLeft = 0, ppmRight = 0,
      vuPeakLeft = 50, vuPeakRight = 50, ppmPeakLeft = 60, ppmPeakRight = 60,
      loudness = -23, correlation = 0, phasePoints = []\<rparr>"





section \<open>The signal processors stay in range\<close>

lemma normalized_abs_le_1: "\<bar>normalized b\<bar> \<le> 1"
proof -
  have "unat b < 2 ^ LENGTH(8)" by (rule unsigned_less)
  then have "real (unat b) < real (2 ^ LENGTH(8))" by (simp only: of_nat_less_iff)
  then have "(unsigned b :: real) < 256" by simp
  moreover have "0 \<le> real (unat b)" by (rule of_nat_0_le_iff)
  then have "0 \<le> (unsigned b :: real)" by simp
  ultimately show ?thesis by (simp add: normalized_def abs_le_iff)
qed

lemma rms_loop_Some:
  "0 < sampleRate \<Longrightarrow> \<exists>t. rms_loop samples sampleRate i acc = Some t \<and> acc \<le> t"
proof (induction samples sampleRate i acc rule: rms_loop.induct)
  case (1 samples sampleRate i acc)
  show ?case
  proof (cases "i < length samples")
    case True
    with 1 obtain t where
      t: "rms_loop samples sampleRate (i + sampleRate)
            (acc + normalized (samples ! i) * normalized (samples ! i)) = Some t"
         "acc + normalized (samples ! i) * normalized (samples ! i) \<le> t"
      by auto
    have "0 \<le> normalized (samples ! i) * normalized (samples ! i)" by simp
    with t(2) have "acc \<le> t" by linarith
    with t(1) True 1(2) show ?thesis by (subst rms_loop.simps) auto
  next
    case False
    then show ?thesis by (subst rms_loop.simps) simp
  qed
qed

lemma rms_loop_silent:
  "0 < sampleRate \<Longrightarrow> list_all (\<lambda>x. x = 128) samples \<Longrightarrow> rms_loop samples sampleRate i acc = Some acc"
proof (induction samples sampleRate i acc rule: rms_loop.induct)
  case (1 samples sampleRate i acc)
  show ?case
  proof (cases "i < length samples")
    case True
    with 1(3) have "samples ! i = 128" by (simp add: list_all_length)
    then have "normalized (samples ! i) = 0" by (simp add: normalized_def)
    with 1 True show ?thesis by (subst rms_loop.simps) auto
  next
    case False
    then show ?thesis by (subst rms_loop.simps) simp
  qed
qed

lemma peak_loop_Some:
  "0 < sampleRate \<Longrightarrow> 0 \<le> peak \<Longrightarrow> peak \<le> 1 \<Longrightarrow>
   \<exists>p. peak_loop samples sampleRate i peak = Some p \<and> 0 \<le> p \<and> p \<le> 1"
proof (induction samples sampleRate i peak rule: peak_loop.induct)
  case (1 samples sampleRate i peak)
  show ?case
  proof (cases "i < length samples")
    case True
    let ?n = "\<bar>normalized (samples ! i)\<bar>"
    let ?p = "if ?n > peak then ?n else peak"
    have "0 \<le> ?p" "?p \<le> 1" using 1(3,4) normalized_abs_le_1 [of "samples ! i"] by auto
    with 1(1) [OF True] 1(2) obtain p where
      "peak_loop samples sampleRate (i + sampleRate) ?p = Some p" "0 \<le> p" "p \<le> 1"
      by auto
    with True 1(2) show ?thesis by (subst peak_loop.simps) auto
  next
    case False
    with 1 show ?thesis by (subst peak_loop.simps) simp
  qed
qed

lemma peak_loop_silent:
  "0 < sampleRate \<Longrightarrow> 0 \<le> peak \<Longrightarrow> list_all (\<lambda>x. x = 128) samples \<Longrightarrow>
   peak_loop samples sampleRate i peak = Some peak"
proof (induction samples sampleRate i peak rule: peak_loop.induct)
  case (1 samples sampleRate i peak)
  show ?case
  proof (cases "i < length samples")
    case True
    with 1(4) have "samples ! i = 128" by (simp add: list_all_length)
    then have "normalized (samples ! i) = 0" by (simp add: normalized_def)
    with 1 True show ?thesis by (subst peak_loop.simps) auto
  next
    case False
    then show ?thesis by (subst peak_loop.simps) simp
  qed
qed

lemma calculateRMS_range:
  assumes "0 < sampleRate" "samples \<noteq> []"
  shows "\<exists>r. calculateRMS samples sampleRate = Some (Fin r) \<and> 0 \<le> r \<and> r \<le> 100"
proof -
  from rms_loop_Some [OF assms(1)] obtain t where
    t: "rms_loop samples sampleRate 0 0 = Some t" "0 \<le> t" by blast
  have d: "real (length samples) / real sampleRate > 0" using assms by simp
  then have "0 \<le> t / (real (length samples) / real sampleRate)" using t(2) by simp
  with t d assms show ?thesis
    by (auto simp: calculateRMS_def Let_def divide_less_0_iff mult_less_0_iff)
qed

lemma calculatePeak_range:
  assumes "0 < sampleRate"
  shows "\<exists>p. calculatePeak samples sampleRate = Some (Fin p) \<and> 0 \<le> p \<and> p \<le> 100"
proof -
  from peak_loop_Some [OF assms, of 0] obtain p where
    "peak_loop samples sampleRate 0 0 = Some p" "0 \<le> p" "p \<le> 1" by auto
  then show ?thesis by (simp add: calculatePeak_def)
qed

lemma calculateRMS_silent:
  assumes "0 < sampleRate" "samples \<noteq> []" "list_all (\<lambda>x. x = 128) samples"
  shows "calculateRMS samples sampleRate = Some (Fin 0)"
  using assms by (simp add: calculateRMS_def rms_loop_silent)

lemma calculatePeak_silent:
  assumes "0 < sampleRate" "list_all (\<lambda>x. x = 128) samples"
  shows "calculatePeak samples sampleRate = Some (Fin 0)"
  using assms by (simp add: calculatePeak_def peak_loop_silent)

lemma rms_loop_Nil: "rms_loop [] sr i acc = Some acc"
  by (subst rms_loop.simps) simp

lemma peak_loop_Nil: "peak_loop [] sr i peak = Some peak"
  by (subst peak_loop.simps) simp

lemma calculateRMS_empty: "calculateRMS [] 4 = Some NaN"
  by (simp add: calculateRMS_def rms_loop_Nil)

lemma calculatePeak_empty: "calculatePeak [] sr = Some (Fin 0)"
  by (simp add: calculatePeak_def peak_loop_Nil)

text \<open>
  Claim C1, as the code has it. With a positive stride, \<^verbatim>\<open>calculateRMS\<close> returns a
  number in \<open>[0, 100]\<close> on every non-empty buffer and \<^verbatim>\<open>calculatePeak\<close> on every
  buffer, the empty one included, where it returns 0. A non-empty buffer of silence
  (every sample 128) gives exactly 0 from both. \<^verbatim>\<open>calculateRMS\<close> has no short-circuit
  for the empty buffer: the callers only pass buffers of the analyser, which are not empty.
\<close>

theorem C1_processors_in_range:
  assumes "0 < sampleRate"
  shows "(samples \<noteq> [] \<longrightarrow>
            (\<exists>v. calculateRMS samples sampleRate = Some v \<and> in_0_100 v))
       \<and> (\<exists>v. calculatePeak samples sampleRate = Some v \<and> in_0_100 v)
       \<and> (samples \<noteq> [] \<and> list_all (\<lambda>x. x = 128) samples \<longrightarrow>
            calculateRMS samples sampleRate = Some (Fin 0)
          \<and> calculatePeak samples sampleRate = Some (Fin 0))
       \<and> calculatePeak [] sampleRate = Some (Fin 0)"
proof (intro conjI impI)
  assume "samples \<noteq> []"
  with calculateRMS_range [OF assms] obtain r where
    "calculateRMS samples sampleRate = Some (Fin r)" "0 \<le> r" "r \<le> 100" by blast
  then show "\<exists>v. calculateRMS samples sampleRate = Some v \<and> in_0_100 v" by simp
next
  from calculatePeak_range [OF assms] obtain p where
    "calculatePeak samples sampleRate = Some (Fin p)" "0 \<le> p" "p \<le> 100" by blast
  then show "\<exists>v. calculatePeak samples sampleRate = Some v \<and> in_0_100 v" by simp
next
  assume "samples \<noteq> [] \<and> list_all (\<lambda>x. x = 128) samples"
  with assms show "calculateRMS samples sampleRate = Some (Fin 0)"
    by (simp add: calculateRMS_silent)
next
  assume "samples \<noteq> [] \<and> list_all (\<lambda>x. x = 128) samples"
  with assms show "calculatePeak samples sampleRate = Some (Fin 0)"
    by (simp add: calculatePeak_silent)
next
  show "calculatePeak [] sampleRate = Some (Fin 0)" by (rule calculatePeak_empty)
qed

theorem C1_processors_in_range_witness:
  "(0::nat) < 4
   \<and> [128, 128, 128, 128, 128 :: byte] \<noteq> []
   \<and> list_all (\<lambda>x. x = 128) [128, 128, 128, 128, 128 :: byte]
   \<and> (\<exists>v. calculateRMS [128, 128, 128, 128, 128] 4 = Some v \<and> in_0_100 v)
   \<and> (\<exists>v. calculatePeak [128, 128, 128, 128, 128] 4 = Some v \<and> in_0_100 v)
   \<and> calculateRMS [128, 128, 128, 128, 128] 4 = Some (Fin 0)
   \<and> calculatePeak [128, 128, 128, 128, 128] 4 = Some (Fin 0)"
  using C1_processors_in_range [of 4 "[128, 128, 128, 128, 128]"] by simp

text \<open>
  On the empty buffer \<^verbatim>\<open>calculateRMS\<close> divides 0 by 0: the result is NaN, not 0 and not
  a number of \<open>[0, 100]\<close>.
\<close>

theorem C1_rms_empty_counterexample:
  "calculateRMS [] 4 = Some NaN \<and> calculateRMS [] 4 \<noteq> Some (Fin 0) \<and> \<not> in_0_100 NaN"
  by (simp add: calculateRMS_empty)

section \<open>Meter ballistics\<close>

text \<open>
  Claim C2, as the code has it. Both meters at level 0 and one meter tick with the same
  instantaneous value \<open>x > 0\<close> fed to both (the step from 0 to 100 is \<open>x = 100\<close>): the
  VU level after the tick is \<open>0.3 x\<close> and the PPM level is \<open>0.2 x\<close>, so the PPM level is
  below the VU level (20 against 30 for the step to 100).
\<close>

theorem C2_step_response:
  assumes "vuLeft prev = 0" "vuRight prev = 0" "ppmLeft prev = 0" "ppmRight prev = 0"
    and "0 < x"
  shows "vuLeft (updateMeterData x x x x corr pts prev) = 0.3 * x
       \<and> ppmLeft (updateMeterData x x x x corr pts prev) = 0.2 * x
       \<and> vuRight (updateMeterData x x x x corr pts prev) = 0.3 * x
       \<and> ppmRight (updateMeterData x x x x corr pts prev) = 0.2 * x
       \<and> ppmLeft (updateMeterData x x x x corr pts prev)
            < vuLeft (updateMeterData x x x x corr pts prev)
       \<and> ppmRight (updateMeterData x x x x corr pts prev)
            < vuRight (updateMeterData x x x x corr pts prev)"
  using assms by (simp add: updateMeterData_def)

theorem C2_step_response_witness:
  "vuLeft initialMeterData = 0 \<and> vuRight initialMeterData = 0
   \<and> ppmLeft initialMeterData = 0 \<and> ppmRight initialMeterData = 0 \<and> (0::real) < 100
   \<and> vuLeft (updateMeterData 100 100 100 100 0 [] initialMeterData) = 30
   \<and> ppmLeft (updateMeterData 100 100 100 100 0 [] initialMeterData) = 20"
  using C2_step_response [of initialMeterData 100 0 "[]"]
  by (simp add: initialMeterData_def)

text \<open>After the step from 0 to 100 the PPM level is not at or above the VU level.\<close>

theorem C2_ppm_below_vu_counterexample:
  "\<not> ppmLeft (updateMeterData 100 100 100 100 0 [] initialMeterData)
       \<ge> vuLeft (updateMeterData 100 100 100 100 0 [] initialMeterData)"
  by (simp add: updateMeterData_def initialMeterData_def)

text \<open>
  Claim C7. On a meter tick each peak-hold becomes the maximum of the instantaneous value
  and the previous hold times its decay factor (0.98 for VU, 0.99 for PPM). So the new
  hold is never below the instantaneous value; a hold that is not negative stays so (the
  holds start at 0); and on a tick whose instantaneous value does not exceed the hold, the
  hold does not rise and falls to no less than the hold times its decay factor.
\<close>

theorem C7_peak_hold:
  "vuPeakLeft (updateMeterData lr rr lp rp corr pts prev) = max lr (vuPeakLeft prev * 0.98)
 \<and> vuPeakRight (updateMeterData lr rr lp rp corr pts prev) = max rr (vuPeakRight prev * 0.98)
 \<and> ppmPeakLeft (updateMeterData lr rr lp rp corr pts prev) = max lp (ppmPeakLeft prev * 0.99)
 \<and> ppmPeakRight (updateMeterData lr rr lp rp corr pts prev) = max rp (ppmPeakRight prev * 0.99)
 \<and> lr \<le> vuPeakLeft (updateMeterData lr rr lp rp corr pts prev)
 \<and> rr \<le> vuPeakRight (updateMeterData lr rr lp rp corr pts prev)
 \<and> lp \<le> ppmPeakLeft (updateMeterData lr rr lp rp corr pts prev)
 \<and> rp \<le> ppmPeakRight (updateMeterData lr rr lp rp corr pts prev)
 \<and> (0 \<le> vuPeakLeft prev \<longrightarrow> 0 \<le> vuPeakLeft (updateMeterData lr rr lp rp corr pts prev))
 \<and> (0 \<le> vuPeakRight prev \<longrightarrow> 0 \<le> vuPeakRight (updateMeterData lr rr lp rp corr pts prev))
 \<and> (0 \<le> ppmPeakLeft prev \<longrightarrow> 0 \<le> ppmPeakLeft (updateMeterData lr rr lp rp corr pts prev))
 \<and> (0 \<le> ppmPeakRight prev \<longrightarrow> 0 \<le> ppmPeakRight (updateMeterData lr rr lp rp corr pts prev))
 \<and> (0 \<le> vuPeakLeft prev \<and> lr \<le> vuPeakLeft prev \<longrightarrow>
      vuPeakLeft prev * 0.98 \<le> vuPeakLeft (updateMeterData lr rr lp rp corr pts prev)
    \<and> vuPeakLeft (updateMeterData lr rr lp rp corr pts prev) \<le> vuPeakLeft prev)
 \<and> (0 \<le> vuPeakRight prev \<and> rr \<le> vuPeakRight prev \<longrightarrow>
      vuPeakRight prev * 0.98 \<le> vuPeakRight (updateMeterData lr rr lp rp corr pts prev)
    \<and> vuPeakRight (updateMeterData lr rr lp rp corr pts prev) \<le> vuPeakRight prev)
 \<and> (0 \<le> ppmPeakLeft prev \<and> lp \<le> ppmPeakLeft prev \<longrightarrow>
      ppmPeakLeft prev * 0.99 \<le> ppmPeakLeft (updateMeterData lr rr lp rp corr pts prev)
    \<and> ppmPeakLeft (updateMeterData lr rr lp rp corr pts prev) \<le> ppmPeakLeft prev)
 \<and> (0 \<le> ppmPeakRight prev \<and> rp \<le> ppmPeakRight prev \<longrightarrow>
      ppmPeakRight prev * 0.99 \<le> ppmPeakRight (updateMeterData lr rr lp rp corr pts prev)
    \<and> ppmPeakRight (updateMeterData lr rr lp rp corr pts prev) \<le> ppmPeakRight prev)"
  by (simp add: updateMeterData_def le_max_iff_disj)

theorem C7_peak_hold_witness:
  "0 \<le> vuPeakLeft exampleMeter \<and> 10 \<le> vuPeakLeft exampleMeter
 \<and> 0 \<le> vuPeakRight exampleMeter \<and> 20 \<le> vuPeakRight exampleMeter
 \<and> 0 \<le> ppmPeakLeft exampleMeter \<and> 30 \<le> ppmPeakLeft exampleMeter
 \<and> 0 \<le> ppmPeakRight exampleMeter \<and> 40 \<le> ppmPeakRight exampleMeter
 \<and> vuPeakLeft (updateMeterData 10 20 30 40 0 [] exampleMeter) = 49
 \<and> vuPeakRight (updateMeterData 10 20 30 40 0 [] exampleMeter) = 49
 \<and> ppmPeakLeft (updateMeterData 10 20 30 40 0 [] exampleMeter) = 59.4
 \<and> ppmPeakRight (updateMeterData 10 20 30 40 0 [] exampleMeter) = 59.4
 \<and> vuPeakLeft (updateMeterData 10 20 30 40 0 [] exampleMeter) \<le> vuPeakLeft exampleMeter
 \<and> ppmPeakLeft (updateMeterData 10 20 30 40 0 [] exampleMeter) \<le> ppmPeakLeft exampleMeter"
  using C7_peak_hold [of 10 20 30 40 0 "[]" exampleMeter]
  by (simp add: exampleMeter_def)

section \<open>The decay timer\<close>

lemma decayTick_running: "snd (decayTick m) \<longleftrightarrow> \<not> allLow m"
  by (simp add: decayTick_def)

lemma decayTick_halt: "allLow m \<Longrightarrow> decayTick m = (m, False)"
  by (simp add: decayTick_def)







section \<open>Changing the quality tier\<close>

text \<open>
  Claim C4, as the code has it. When the active tier changes to \<open>q\<close>, the time-domain
  and frequency-domain sample buffers are replaced by new buffers of the new tier's
  buffer size, all zero; the waveform bars are replaced by a new array of the new tier's
  bar count with every element 15, the rest height the bars also start with; and the
  analyser's FFT size becomes the new tier's, when an analyser has been created.
\<close>

theorem C4_tier_change:
  assumes "q \<noteq> qualityLevel st"
  shows "qualityLevel (setQualityLevel q st) = q
       \<and> audioData (audio (setQualityLevel q st)) = replicate (bufferSizes q) 0
       \<and> frequencyData (audio (setQualityLevel q st)) = replicate (bufferSizes q) 0
       \<and> waveformBars (setQualityLevel q st) = replicate (getWaveformBars q) 15
       \<and> map_option fftSize (analyserRef (audio (setQualityLevel q st)))
            = map_option (\<lambda>n. fftSizes q) (analyserRef (audio st))"
  using assms
  by (simp add: setQualityLevel_def qualityEffect_def updateQualitySettings_def Let_def
        option.map_comp comp_def split: option.split)

theorem C4_tier_change_witness:
  "Low \<noteq> qualityLevel examplePlayer
   \<and> audioData (audio (setQualityLevel Low examplePlayer)) = replicate 32 0
   \<and> frequencyData (audio (setQualityLevel Low examplePlayer)) = replicate 32 0
   \<and> waveformBars (setQualityLevel Low examplePlayer) = replicate 12 15
   \<and> map_option fftSize (analyserRef (audio (setQualityLevel Low examplePlayer))) = Some 64"
  using C4_tier_change [of Low examplePlayer] by (simp add: examplePlayer_def)

text \<open>Switching from \<open>High\<close> to \<open>Low\<close> leaves twelve bars at 15, not at zero.\<close>

theorem C4_bars_not_zero_counterexample:
  "waveformBars (setQualityLevel Low examplePlayer) = replicate 12 15
   \<and> waveformBars (setQualityLevel Low examplePlayer) \<noteq> replicate (getWaveformBars Low) 0"
  by (simp add: setQualityLevel_def qualityEffect_def examplePlayer_def replicate_eq_replicate)

section \<open>Waveform bars\<close>

lemma byteOrZero_range: "0 \<le> byteOrZero fd i \<and> byteOrZero fd i \<le> 255"
proof (cases "i < length fd")
  case True
  have "unat (fd ! i) < 2 ^ LENGTH(8)" by (rule unsigned_less)
  then have "unat (fd ! i) \<le> 255" by simp
  then have "real (unat (fd ! i)) \<le> real 255" by (simp only: of_nat_le_iff)
  then have "(unsigned (fd ! i) :: real) \<le> 255" by simp
  moreover have "0 \<le> real (unat (fd ! i))" by (rule of_nat_0_le_iff)
  then have "0 \<le> (unsigned (fd ! i) :: real)" by simp
  ultimately show ?thesis using True by (simp add: byteOrZero_def)
next
  case False
  then show ?thesis by (simp add: byteOrZero_def)
qed

text \<open>
  Claim C10. On a non-empty frequency buffer a waveform update produces one bar per bar
  of the tier, each in \<open>[5, 80]\<close>: the byte is scaled by 80/255 and floored at 5.
\<close>

theorem C10_bars_range:
  assumes "fd \<noteq> []"
  shows "\<exists>bars. updateWaveform q fd = Some bars
           \<and> length bars = getWaveformBars q
           \<and> list_all (\<lambda>b. 5 \<le> b \<and> b \<le> 80) bars"
proof -
  have "5 \<le> min 100 (max 5 ((byteOrZero fd i / 255) * 80))
      \<and> min 100 (max 5 ((byteOrZero fd i / 255) * 80)) \<le> 80" for i
    using byteOrZero_range [of fd i] by auto
  then show ?thesis using assms
    by (simp add: updateWaveform_def Let_def list_all_iff)
qed

theorem C10_bars_range_witness:
  "[0, 255, 128, 51, 0, 255, 128, 51, 0, 255, 128, 51 :: byte] \<noteq> []
   \<and> updateWaveform Low [0, 255, 128, 51, 0, 255, 128, 51, 0, 255, 128, 51] =
       Some [5, 80, 2048 / 51, 16, 5, 80, 2048 / 51, 16, 5, 80, 2048 / 51, 16]
   \<and> (\<exists>bars. updateWaveform Low [0, 255, 128, 51, 0, 255, 128, 51, 0, 255, 128, 51] = Some bars
         \<and> length bars = 12 \<and> list_all (\<lambda>b. 5 \<le> b \<and> b \<le> 80) bars)"
proof -
  have "updateWaveform Low [0, 255, 128, 51, 0, 255, 128, 51, 0, 255, 128, 51] =
       Some [5, 80, 2048 / 51, 16, 5, 80, 2048 / 51, 16, 5, 80, 2048 / 51, 16]"
    by (simp add: updateWaveform_def byteOrZero_def upt_conv_Cons)
  then show ?thesis
    using C10_bars_range [of "[0, 255, 128, 51, 0, 255, 128, 51, 0, 255, 128, 51]" Low] by simp
qed

section \<open>The CPU estimate\<close>

lemma cpu_mono:
  fixes a b t c :: real
  assumes "a \<le> b" "0 < t"
  shows "max 10 (min 95 ((1 - min 1 (b / t)) * 100 + c)) \<le> max 10 (min 95 ((1 - min 1 (a / t)) * 100 + c))"
proof -
  have "a / t \<le> b / t" using assms by (simp add: divide_right_mono)
  then have "min 1 (a / t) \<le> min 1 (b / t)" by auto
  then have "(1 - min 1 (b / t)) * 100 + c \<le> (1 - min 1 (a / t)) * 100 + c" by simp
  then have "min 95 ((1 - min 1 (b / t)) * 100 + c) \<le> min 95 ((1 - min 1 (a / t)) * 100 + c)"
    by (intro min.mono) auto
  then show ?thesis by (intro max.mono) auto
qed

lemma targetFps_pos: "0 < targetFps q"
  by (cases q) simp_all

lemma avgFps_update:
  "avgFps (updatePerformanceMetrics q pl p) =
     foldl (+) 0 (if length (fpsHistory p @ [fps p]) > 10 then tl (fpsHistory p @ [fps p])
                  else fpsHistory p @ [fps p])
     / real (length (if length (fpsHistory p @ [fps p]) > 10 then tl (fpsHistory p @ [fps p])
                  else fpsHistory p @ [fps p]))"
  unfolding updatePerformanceMetrics_def Let_def
  by (simp split del: if_split cong: if_weak_cong)

lemma cpuUsage_update:
  "cpuUsage (updatePerformanceMetrics q pl p) =
     max 10 (min 95 ((1 - min 1 (avgFps (updatePerformanceMetrics q pl p) / targetFps q)) * 100
        + (if pl then 20 else 5)))"
  unfolding updatePerformanceMetrics_def Let_def
  by (simp split del: if_split cong: if_weak_cong)

text \<open>
  Claim C9. With the tier and the playback flag fixed, the CPU estimate stored by
  \<^verbatim>\<open>updatePerformanceMetrics\<close> does not increase with the average frame rate it stores:
  of two updates, the one with the lower average has the higher or equal estimate.
\<close>

theorem C9_cpu_monotone:
  assumes "avgFps (updatePerformanceMetrics q isPlaying p1)
             \<le> avgFps (updatePerformanceMetrics q isPlaying p2)"
  shows "cpuUsage (updatePerformanceMetrics q isPlaying p2)
           \<le> cpuUsage (updatePerformanceMetrics q isPlaying p1)"
  unfolding cpuUsage_update using assms targetFps_pos [of q] by (intro cpu_mono)

theorem C9_cpu_monotone_witness:
  "avgFps (updatePerformanceMetrics Medium True (initialPerf\<lparr>fps := 15\<rparr>))
     \<le> avgFps (updatePerformanceMetrics Medium True (initialPerf\<lparr>fps := 24\<rparr>))
   \<and> cpuUsage (updatePerformanceMetrics Medium True (initialPerf\<lparr>fps := 24\<rparr>)) = 40
   \<and> cpuUsage (updatePerformanceMetrics Medium True (initialPerf\<lparr>fps := 15\<rparr>)) = 70"
proof -
  have a: "avgFps (updatePerformanceMetrics Medium True (initialPerf\<lparr>fps := 15\<rparr>)) = 15"
    by (simp add: avgFps_update initialPerf_def)
  have b: "avgFps (updatePerformanceMetrics Medium True (initialPerf\<lparr>fps := 24\<rparr>)) = 24"
    by (simp add: avgFps_update initialPerf_def)
  have "cpuUsage (updatePerformanceMetrics Medium True (initialPerf\<lparr>fps := 24\<rparr>))
         \<le> cpuUsage (updatePerformanceMetrics Medium True (initialPerf\<lparr>fps := 15\<rparr>))"
    by (rule C9_cpu_monotone) (simp add: a b)
  then show ?thesis by (simp add: cpuUsage_update a b)
qed


section \<open>Oscilloscope pan\<close>

lemma zoomIn_pan: "panOffset (zoomIn s) = panOffset s"
  by (simp add: zoomIn_def Let_def)

lemma zoomOut_pan: "panOffset (zoomOut s) = panOffset s \<or> panOffset (zoomOut s) = 0"
  by (simp add: zoomOut_def Let_def)

lemma amplitudeZoomIn_pan: "panOffset (amplitudeZoomIn s) = panOffset s"
  by (simp add: amplitudeZoomIn_def Let_def)

lemma amplitudeZoomOut_pan: "panOffset (amplitudeZoomOut s) = panOffset s"
  by (simp add: amplitudeZoomOut_def Let_def)

lemma handleWheel_pan:
  "panOffset (handleWheel shiftKey deltaY s) = panOffset s
   \<or> panOffset (handleWheel shiftKey deltaY s) = 0"
  using zoomOut_pan [of s]
  by (simp add: handleWheel_def zoomIn_pan amplitudeZoomIn_pan amplitudeZoomOut_pan)

lemma oscStep_pan:
  assumes "0 \<le> panOffset s \<and> panOffset s \<le> 100"
  shows "0 \<le> panOffset (oscStep s e) \<and> panOffset (oscStep s e) \<le> 100"
proof (cases e)
  case ClickZoomIn
  with assms show ?thesis by (simp add: zoomIn_pan)
next
  case ClickZoomOut
  with assms zoomOut_pan [of s] show ?thesis by auto
next
  case ClickReset
  then show ?thesis by (simp add: resetZoom_def)
next
  case (MouseDown x)
  with assms show ?thesis by (simp add: handleMouseDown_def)
next
  case (MouseMove x)
  with assms show ?thesis by (simp add: handleMouseMove_def Let_def)
next
  case MouseUp
  with assms show ?thesis by (simp add: handleMouseUp_def)
next
  case (GlobalMouseMove x)
  with assms show ?thesis by (simp add: handleGlobalMouseMove_def Let_def)
next
  case GlobalMouseUp
  with assms show ?thesis by (simp add: handleGlobalMouseUp_def)
next
  case (Wheel shiftKey deltaY)
  with assms handleWheel_pan [of shiftKey deltaY s] show ?thesis by auto
qed

lemma foldl_pan:
  "0 \<le> panOffset s \<and> panOffset s \<le> 100 \<Longrightarrow>
   0 \<le> panOffset (foldl oscStep s es) \<and> panOffset (foldl oscStep s es) \<le> 100"
  by (induction es arbitrary: s) (simp_all add: oscStep_pan)

text \<open>After every sequence of events the pan offset is in \<open>[0, 100]\<close>.\<close>

lemma pan_in_range: "0 \<le> panOffset (oscRun es) \<and> panOffset (oscRun es) \<le> 100"
  unfolding oscRun_def by (rule foldl_pan) (simp add: initialOscilloscope_def)

lemma indexOf_zoom_1: "indexOf zoomLevels 1 = 7"
  by (simp add: zoomLevels_def)

lemma indexOf_zoom_2: "indexOf zoomLevels 2 = 8"
  by (simp add: zoomLevels_def)

lemma run_zoomIn: "zoomIn initialOscilloscope = initialOscilloscope\<lparr>zoomLevel := 2\<rparr>"
  by (simp add: zoomIn_def indexOf_zoom_1 initialOscilloscope_def) (simp add: zoomLevels_def)

lemma run_mouseDown:
  "handleMouseDown 100 (initialOscilloscope\<lparr>zoomLevel := 2\<rparr>)
     = initialOscilloscope\<lparr>zoomLevel := 2, isDragging := True, lastMouseX := 100\<rparr>"
  by (simp add: handleMouseDown_def initialOscilloscope_def)

lemma run_wheel:
  "handleWheel False 1
     (initialOscilloscope\<lparr>zoomLevel := 2, isDragging := True, lastMouseX := 100\<rparr>)
     = initialOscilloscope\<lparr>isDragging := True, lastMouseX := 100\<rparr>"
  by (simp add: handleWheel_def zoomOut_def indexOf_zoom_2 initialOscilloscope_def)
     (simp add: zoomLevels_def)

lemma run_globalMove:
  "handleGlobalMouseMove 60 (initialOscilloscope\<lparr>isDragging := True, lastMouseX := 100\<rparr>)
     = initialOscilloscope\<lparr>isDragging := True, lastMouseX := 60, panOffset := 10\<rparr>"
  by (simp add: handleGlobalMouseMove_def initialOscilloscope_def)

lemma run_move:
  "handleMouseMove 60 (initialOscilloscope\<lparr>isDragging := True, lastMouseX := 100\<rparr>)
     = initialOscilloscope\<lparr>isDragging := True, lastMouseX := 100\<rparr>"
  by (simp add: handleMouseMove_def initialOscilloscope_def)

text \<open>
  Claim C6, at the input where the code departs from it. Zoom in to 2x, press the mouse
  button at x = 100, turn the wheel to zoom out to 1x (which resets the pan to 0) and,
  with the button still held, move the mouse to x = 60: the listener on the document
  moves the pan to 10 although the zoom is 1. The handler on the element itself,
  \<^verbatim>\<open>handleMouseMove\<close>, tests \<^verbatim>\<open>zoomLevel > 1\<close> and leaves the pan at 0 on the same move.
\<close>

theorem C6_pan_without_zoom:
  "oscRun [ClickZoomIn, MouseDown 100, Wheel False 1, GlobalMouseMove 60]
     = \<lparr>zoomLevel = 1, panOffset = 10, amplitudeZoom = 8, isDragging = True, lastMouseX = 60\<rparr>
 \<and> oscRun [ClickZoomIn, MouseDown 100, Wheel False 1, MouseMove 60]
     = \<lparr>zoomLevel = 1, panOffset = 0, amplitudeZoom = 8, isDragging = True, lastMouseX = 100\<rparr>"
  by (simp add: oscRun_def run_zoomIn run_mouseDown run_wheel run_globalMove run_move)
     (simp add: initialOscilloscope_def)

section \<open>The windows of the spectrum mapper\<close>

lemma logIndex_alt:
  "logIndex len i =
     nat (min (int (max 1 len - 1)) (max 0 (round ((colFreq i / (SAMPLE_RATE / 2)) * real (max 1 len)))))"
  by (simp add: logIndex_def colFreq_def Let_def)

lemma colFreq_0: "colFreq 0 = 20"
  by (simp add: colFreq_def MIN_FREQ_def)

lemma colFreq_last: "colFreq 139 = 22000"
proof -
  have "log 10 MIN_FREQ + ((log 10 MAX_FREQ - log 10 MIN_FREQ) * real 139) / (real VIZ_COLS - 1)
          = log 10 MAX_FREQ"
    by (simp add: VIZ_COLS_def diff_divide_distrib)
  then have "colFreq 139 = 10 powr log 10 MAX_FREQ" by (simp only: colFreq_def)
  then show ?thesis by (simp add: MAX_FREQ_def)
qed

lemma colFreq_mono: "i \<le> j \<Longrightarrow> colFreq i \<le> colFreq j"
proof -
  assume ij: "i \<le> j"
  have "log 10 MIN_FREQ \<le> log 10 MAX_FREQ" by (simp add: MIN_FREQ_def MAX_FREQ_def)
  then have d: "0 \<le> log 10 MAX_FREQ - log 10 MIN_FREQ" by simp
  have "(log 10 MAX_FREQ - log 10 MIN_FREQ) * real i \<le> (log 10 MAX_FREQ - log 10 MIN_FREQ) * real j"
    using d ij by (intro mult_left_mono) auto
  then have "((log 10 MAX_FREQ - log 10 MIN_FREQ) * real i) / (real VIZ_COLS - 1)
           \<le> ((log 10 MAX_FREQ - log 10 MIN_FREQ) * real j) / (real VIZ_COLS - 1)"
    by (intro divide_right_mono) (auto simp: VIZ_COLS_def)
  then show ?thesis unfolding colFreq_def by (intro powr_mono) auto
qed

lemma logIndex_mono: "i \<le> j \<Longrightarrow> logIndex len i \<le> logIndex len j"
proof -
  assume "i \<le> j"
  then have "colFreq i \<le> colFreq j" by (rule colFreq_mono)
  then have "colFreq i / (SAMPLE_RATE / 2) \<le> colFreq j / (SAMPLE_RATE / 2)"
    by (intro divide_right_mono) (auto simp: SAMPLE_RATE_def)
  then have "(colFreq i / (SAMPLE_RATE / 2)) * real (max 1 len) \<le> (colFreq j / (SAMPLE_RATE / 2)) * real (max 1 len)"
    by (intro mult_right_mono) auto
  then have "round ((colFreq i / (SAMPLE_RATE / 2)) * real (max 1 len))
           \<le> round ((colFreq j / (SAMPLE_RATE / 2)) * real (max 1 len))"
    by (rule round_mono)
  then show ?thesis unfolding logIndex_alt by (intro nat_mono min.mono max.mono) auto
qed

lemma logIndex_le: "logIndex len i \<le> max 1 len - 1"
  unfolding logIndex_alt by simp

lemma logIndex_first:
  assumes "len \<le> 551"
  shows "logIndex len 0 = 0"
proof -
  have "real (max 1 len) \<le> 551" using assms by simp
  then have "round ((20 / (44100 / 2)) * real (max 1 len)) = 0"
    by (intro round_unique) auto
  then show ?thesis by (simp add: logIndex_alt colFreq_0 SAMPLE_RATE_def)
qed

lemma logIndex_last:
  assumes "1 \<le> len" "len \<le> 661"
  shows "logIndex len 139 = len - 1"
proof -
  have l: "real len \<le> 661" using assms by simp
  have "real_of_int (int len - 1) \<le> (22000 / (44100 / 2)) * real len + 1 / 2"
    using l by simp
  then have "int len - 1 \<le> round ((22000 / (44100 / 2)) * real len)"
    unfolding round_def by (simp only: le_floor_iff)
  moreover have "max 1 len = len" using assms by simp
  ultimately show ?thesis using assms
    by (simp add: logIndex_alt colFreq_last SAMPLE_RATE_def min_def max_def)
qed

lemma logIndex_1024: "logIndex 1024 0 = 1"
proof -
  have "round ((20 / (44100 / 2)) * real (1024::nat)) = 1"
    by (intro round_unique) auto
  then show ?thesis by (simp add: logIndex_alt colFreq_0 SAMPLE_RATE_def)
qed

lemma upt_chain:
  fixes f :: "nat \<Rightarrow> nat"
  assumes "\<And>i j. i \<le> j \<Longrightarrow> f i \<le> f j"
  shows "concat (map (\<lambda>i. [f i..<f (Suc i)]) [0..<n]) = [f 0..<f n]"
proof (induction n)
  case 0
  show ?case by simp
next
  case (Suc n)
  have "f 0 \<le> f n" "f n \<le> f (Suc n)" using assms by simp_all
  then have "[f 0..<f n] @ [f n..<f (Suc n)] = [f 0..<f (Suc n)]"
    by (metis le_Suc_ex upt_add_eq_append)
  with Suc show ?case by simp
qed

lemma logIndexMap_nth: "i < VIZ_COLS \<Longrightarrow> logIndexMap len ! i = logIndex len i"
  by (simp add: logIndexMap_def)

lemma columnWindow_inner:
  "i < VIZ_COLS - 1 \<Longrightarrow> columnWindow len i = (logIndex len i, logIndex len (Suc i))"
  by (simp add: columnWindow_def logIndexMap_nth Let_def VIZ_COLS_def)

lemma columnWindow_last:
  "columnWindow len (VIZ_COLS - 1) =
     (logIndex len (VIZ_COLS - 1), min (logIndex len (VIZ_COLS - 1) + 1) len)"
  by (simp add: columnWindow_def logIndexMap_nth Let_def VIZ_COLS_def)

lemma columnWindow_fst: "i < VIZ_COLS \<Longrightarrow> fst (columnWindow len i) = logIndex len i"
  by (simp add: columnWindow_def logIndexMap_nth Let_def)

lemma columnBins_inner:
  "i < VIZ_COLS - 1 \<Longrightarrow> columnBins len i = [logIndex len i..<logIndex len (Suc i)]"
  by (simp add: columnBins_def columnWindow_inner)

lemma inner_concat:
  "concat (map (columnBins len) [0..<VIZ_COLS - 1]) = [logIndex len 0..<logIndex len (VIZ_COLS - 1)]"
proof -
  have m: "map (columnBins len) [0..<VIZ_COLS - 1]
          = map (\<lambda>i. [logIndex len i..<logIndex len (Suc i)]) [0..<VIZ_COLS - 1]"
    by (rule map_cong) (simp_all add: columnBins_inner)
  show ?thesis unfolding m by (rule upt_chain) (rule logIndex_mono)
qed

lemma upt_split_last: "0 < n \<Longrightarrow> [0..<n] = [0..<n - 1] @ [n - 1]"
  by (cases n) simp_all

lemma all_concat:
  "concat (map (columnBins len) [0..<VIZ_COLS])
     = [logIndex len 0..<logIndex len (VIZ_COLS - 1)]
       @ [logIndex len (VIZ_COLS - 1)..<min (logIndex len (VIZ_COLS - 1) + 1) len]"
proof -
  have "0 < VIZ_COLS" by (simp add: VIZ_COLS_def)
  then have "[0..<VIZ_COLS] = [0..<VIZ_COLS - 1] @ [VIZ_COLS - 1]" by (rule upt_split_last)
  then have "concat (map (columnBins len) [0..<VIZ_COLS])
      = concat (map (columnBins len) [0..<VIZ_COLS - 1]) @ columnBins len (VIZ_COLS - 1)"
    by simp
  then show ?thesis
    by (simp only: inner_concat columnBins_def columnWindow_last prod.case)
qed

text \<open>
  Claim C8, as the code has it. For a frequency buffer of 1 to 551 bins, which covers
  the buffers of every quality tier (32, 64, 128 and 256 bins), the windows of the
  columns, taken in column order, are exactly the bins \<open>0, \<dots>, len - 1\<close>, each once: every
  window ends where the next one starts, and every window lies inside the buffer.
\<close>

theorem C8_windows_cover:
  assumes "1 \<le> len" "len \<le> 551"
  shows "concat (map (columnBins len) [0..<VIZ_COLS]) = [0..<len]
       \<and> list_all (\<lambda>i. snd (columnWindow len i) = fst (columnWindow len (i + 1))) [0..<VIZ_COLS - 1]
       \<and> list_all (\<lambda>i. fst (columnWindow len i) \<le> snd (columnWindow len i)
                        \<and> snd (columnWindow len i) \<le> len) [0..<VIZ_COLS]"
proof (intro conjI)
  have first: "logIndex len 0 = 0" using assms by (simp add: logIndex_first)
  have last: "logIndex len (VIZ_COLS - 1) = len - 1"
    using assms logIndex_last [of len] by (simp add: VIZ_COLS_def)
  have "concat (map (columnBins len) [0..<VIZ_COLS])
          = [logIndex len 0..<logIndex len (VIZ_COLS - 1)]
            @ [logIndex len (VIZ_COLS - 1)..<min (logIndex len (VIZ_COLS - 1) + 1) len]"
    by (rule all_concat)
  also have "\<dots> = [0..<len - 1] @ [len - 1..<min (len - 1 + 1) len]"
    by (simp only: first last)
  also have "min (len - 1 + 1) len = len" using assms by simp
  also have "[0..<len - 1] @ [len - 1..<len] = [0..<len]"
    using assms by (metis diff_le_self le0 le_Suc_ex upt_add_eq_append)
  finally show "concat (map (columnBins len) [0..<VIZ_COLS]) = [0..<len]" .
  show "list_all (\<lambda>i. snd (columnWindow len i) = fst (columnWindow len (i + 1))) [0..<VIZ_COLS - 1]"
  proof (simp only: list_all_iff, intro ballI)
    fix i assume "i \<in> set [0..<VIZ_COLS - 1]"
    then have i: "i < VIZ_COLS - 1" by simp
    then have "i + 1 < VIZ_COLS" by simp
    then have "fst (columnWindow len (i + 1)) = logIndex len (i + 1)" by (rule columnWindow_fst)
    with i show "snd (columnWindow len i) = fst (columnWindow len (i + 1))"
      by (simp add: columnWindow_inner)
  qed
  show "list_all (\<lambda>i. fst (columnWindow len i) \<le> snd (columnWindow len i)
                        \<and> snd (columnWindow len i) \<le> len) [0..<VIZ_COLS]"
  proof (simp only: list_all_iff, intro ballI)
    fix i assume "i \<in> set [0..<VIZ_COLS]"
    then have i: "i < VIZ_COLS" by simp
    show "fst (columnWindow len i) \<le> snd (columnWindow len i) \<and> snd (columnWindow len i) \<le> len"
    proof (cases "i < VIZ_COLS - 1")
      case True
      have "logIndex len (Suc i) \<le> max 1 len - 1" by (rule logIndex_le)
      with True assms show ?thesis by (simp add: columnWindow_inner logIndex_mono)
    next
      case False
      with i have e: "i = VIZ_COLS - 1" by simp
      have "columnWindow len i = (len - 1, min (len - 1 + 1) len)"
        unfolding e columnWindow_last last ..
      with assms show ?thesis by simp
    qed
  qed
qed

theorem C8_windows_cover_witness:
  "(1::nat) \<le> 64 \<and> (64::nat) \<le> 551
   \<and> concat (map (columnBins 64) [0..<VIZ_COLS]) = [0..<64]"
  using C8_windows_cover [of 64] by simp

lemma bin0_uncovered: "0 \<notin> set (concat (map (columnBins 1024) [0..<VIZ_COLS]))"
proof -
  have h: "0 < logIndex 1024 i" for i
    using logIndex_mono [of 0 i 1024] by (simp add: logIndex_1024)
  have "0 \<notin> set (columnBins 1024 i)" if "i < VIZ_COLS" for i
  proof -
    have "fst (columnWindow 1024 i) = logIndex 1024 i"
      using that by (simp add: columnWindow_def logIndexMap_nth Let_def)
    then show ?thesis using h [of i] by (simp add: columnBins_def case_prod_beta)
  qed
  then show ?thesis by auto
qed

text \<open>
  On a buffer of 1024 bins the first column starts at bin 1: bin 0 is in no window.
\<close>

theorem C8_bin0_uncovered_counterexample:
  "logIndex 1024 0 = 1 \<and> 0 \<notin> set (concat (map (columnBins 1024) [0..<VIZ_COLS]))
   \<and> concat (map (columnBins 1024) [0..<VIZ_COLS]) \<noteq> [0..<1024]"
proof -
  have "0 \<in> set [0..<(1024::nat)]" by simp
  with bin0_uncovered have "concat (map (columnBins 1024) [0..<VIZ_COLS]) \<noteq> [0..<1024]"
    by metis
  with bin0_uncovered logIndex_1024 show ?thesis by simp
qed

section \<open>Frame-rate warnings\<close>


lemma upd_low:
  "lowFpsCount (updatePerformanceMetrics q pl p) =
     (if fps p < 45 then lowFpsCount p + 1 else max 0 (lowFpsCount p - 1))"
  unfolding updatePerformanceMetrics_def Let_def
  by (simp split del: if_split cong: if_weak_cong)































end
